theory Spec2Isabelle
  imports Main "HOL-Library.Word"
begin

section \<open>Go values used by the emulation layer\<close>

text \<open>
  Go strings and byte slices are byte sequences; both are \<open>string\<close> here, so the
  conversions \<^verbatim>\<open>string(bs)\<close> and \<^verbatim>\<open>[]byte(s)\<close> are the identity.
  An \<^verbatim>\<open>error\<close> is observed only through its message. \<open>errors_New m\<close> stands for
  \<^verbatim>\<open>errors.New(m)\<close> and for every error of the standard library whose message is \<open>m\<close>.
  \<open>ErrFunctionNotFound\<close> is the package variable of that name.
\<close>

datatype error = ErrFunctionNotFound | errors_New string

text \<open>
  Modelled from the spec: the declaration of \<^verbatim>\<open>ErrFunctionNotFound\<close> is not in
  fission.go or httputil.go; the specification gives it the fixed message
  "function not found".
\<close>

fun Error :: "error \<Rightarrow> string" where
  "Error ErrFunctionNotFound = ''function not found''"
| "Error (errors_New m) = m"

text \<open>\<^verbatim>\<open>time.Duration\<close> is an int64 count of nanoseconds, \<^verbatim>\<open>float64\<close> is its 64-bit pattern.\<close>

type_synonym Duration = "64 word"
type_synonym float64 = "64 word"

subsection \<open>The two functions of package strings that the code calls\<close>

text \<open>
  \<^verbatim>\<open>strings.LastIndex(s, sep)\<close> for a separator of one byte: the index of its last
  occurrence in \<open>s\<close>, or \<open>-1\<close>.
\<close>

fun LastIndex :: "string \<Rightarrow> char \<Rightarrow> int" where
  "LastIndex [] c = - 1"
| "LastIndex (x # xs) c =
     (let r = LastIndex xs c
      in if 0 \<le> r then r + 1 else if x = c then 0 else - 1)"

text \<open>
  \<^verbatim>\<open>strings.Split(s, sep)\<close> for a separator of one byte: the pieces of \<open>s\<close> between
  the separators, never an empty list.
\<close>

fun Split :: "string \<Rightarrow> char \<Rightarrow> string list" where
  "Split [] c = [[]]"
| "Split (x # xs) c =
     (if x = c then [] # Split xs c
      else (x # hd (Split xs c)) # tl (Split xs c))"

subsection \<open>Requests and responses of net/http\<close>

text \<open>
  \<^verbatim>\<open>url.Values\<close> and \<^verbatim>\<open>http.Header\<close> are maps from a key to a list of values; their
  \<^verbatim>\<open>Get\<close> returns the first value of the key, or the empty string. (net/http stores
  and looks up header keys in canonical form on both sides.)
\<close>

type_synonym Values = "string \<rightharpoonup> string list"

definition Values_Get :: "Values \<Rightarrow> string \<Rightarrow> string" where
  "Values_Get v key = (case v key of None \<Rightarrow> [] | Some [] \<Rightarrow> [] | Some (x # _) \<Rightarrow> x)"

text \<open>
  Of \<^verbatim>\<open>url.URL\<close> the code reads \<^verbatim>\<open>Path\<close>, \<^verbatim>\<open>Host\<close> and \<^verbatim>\<open>Query()\<close>, the parsed
  query string.
\<close>

record URL =
  Path :: string
  Host :: string
  Query :: Values

text \<open>
  \<open>Body\<close> is what \<^verbatim>\<open>ioutil.ReadAll(r.Body)\<close> returns: the bytes of the body, or the
  error of the read.
\<close>

record Request =
  URL :: URL
  Header :: Values
  Body :: "error + string"

text \<open>
  An \<^verbatim>\<open>http.ResponseWriter\<close>: the status line once it has been written, and the body
  written so far. Response header fields are not recorded.
\<close>

record ResponseWriter =
  wstatus :: "nat option"
  wbody :: string

definition WriteHeader :: "ResponseWriter \<Rightarrow> nat \<Rightarrow> ResponseWriter" where
  "WriteHeader w code = (if wstatus w = None then w\<lparr>wstatus := Some code\<rparr> else w)"

definition Write :: "ResponseWriter \<Rightarrow> string \<Rightarrow> ResponseWriter" where
  "Write w bs = (let w' = WriteHeader w 200 in w'\<lparr>wbody := wbody w' @ bs\<rparr>)"

text \<open>\<^verbatim>\<open>http.Error\<close> writes the status and then the message with \<^verbatim>\<open>Fprintln\<close>.\<close>

definition http_Error :: "ResponseWriter \<Rightarrow> string \<Rightarrow> nat \<Rightarrow> ResponseWriter" where
  "http_Error w msg code = Write (WriteHeader w code) (msg @ [CHR 0x0A])"

definition http_NotFound :: "ResponseWriter \<Rightarrow> Request \<Rightarrow> ResponseWriter" where
  "http_NotFound w r = http_Error w ''404 page not found'' 404"

definition StatusOK :: nat where
  "StatusOK = 200"

definition StatusBadRequest :: nat where
  "StatusBadRequest = 400"

definition StatusInternalServerError :: nat where
  "StatusInternalServerError = 500"

section \<open>httputil.go: the wildcard router\<close>

text \<open>
  A \<^verbatim>\<open>*regexp.Regexp\<close> is used through \<^verbatim>\<open>MatchString\<close> only, so a pattern is the
  predicate it decides. A handler changes the response writer and the state \<open>'w\<close> of
  whatever it closes over.
\<close>

record 'w route =
  pattern :: "string \<Rightarrow> bool"
  handler :: "ResponseWriter \<Rightarrow> Request \<Rightarrow> 'w \<Rightarrow> ResponseWriter \<times> 'w"

record 'w RegexpHandler =
  routes :: "'w route list"

definition Handler ::
  "'w RegexpHandler \<Rightarrow> (string \<Rightarrow> bool) \<Rightarrow>
   (ResponseWriter \<Rightarrow> Request \<Rightarrow> 'w \<Rightarrow> ResponseWriter \<times> 'w) \<Rightarrow> 'w RegexpHandler" where
  "Handler h p f = h\<lparr>routes := routes h @ [\<lparr>pattern = p, handler = f\<rparr>]\<rparr>"

definition HandleFunc ::
  "'w RegexpHandler \<Rightarrow> (string \<Rightarrow> bool) \<Rightarrow>
   (ResponseWriter \<Rightarrow> Request \<Rightarrow> 'w \<Rightarrow> ResponseWriter \<times> 'w) \<Rightarrow> 'w RegexpHandler" where
  "HandleFunc h p f = h\<lparr>routes := routes h @ [\<lparr>pattern = p, handler = f\<rparr>]\<rparr>"

text \<open>
  The path the patterns are matched against:
  \<^verbatim>\<open>strings.Split(r.URL.Path, "?")[0]\<close>. \<open>Split\<close> is never empty, so the index is in range.
\<close>

definition route_path :: "Request \<Rightarrow> string" where
  "route_path r = hd (Split (Path (URL r)) CHR ''?'')"

text \<open>
  The loop \<^verbatim>\<open>for i := len(h.routes) - 1; i >= 0; i--\<close> of \<open>ServeHTTP\<close>. The third
  argument is \<open>i + 1\<close>, so that it stays a natural number when \<open>i\<close> reaches
  \<open>-1\<close>; the result is the index at which the loop body returns, or \<open>None\<close>
  when the loop runs to its end.
\<close>

fun route_loop :: "'w route list \<Rightarrow> string \<Rightarrow> nat \<Rightarrow> nat option" where
  "route_loop rs path 0 = None"
| "route_loop rs path (Suc i) =
     (if pattern (rs ! i) path then Some i else route_loop rs path i)"

definition selected_route :: "'w RegexpHandler \<Rightarrow> Request \<Rightarrow> nat option" where
  "selected_route h r = route_loop (routes h) (route_path r) (length (routes h))"

definition ServeHTTP ::
  "'w RegexpHandler \<Rightarrow> ResponseWriter \<Rightarrow> Request \<Rightarrow> 'w \<Rightarrow> ResponseWriter \<times> 'w" where
  "ServeHTTP h w r s =
     (case selected_route h r of
        Some i \<Rightarrow> handler (routes h ! i) w r s
      | None \<Rightarrow> (http_NotFound w r, s))"

section \<open>httputil.go: the custom-response dispatcher\<close>

definition CUSTOM_FN_HEADER :: string where
  "CUSTOM_FN_HEADER = ''X-CustomFn''"

type_synonym CustomFn = "string \<Rightarrow> error + string"

record CustomHandler =
  GetFn :: "string \<Rightarrow> error + string"
  Handlers :: "string \<rightharpoonup> CustomFn"

definition ExecFn :: "CustomHandler \<Rightarrow> string \<Rightarrow> string \<Rightarrow> error + string" where
  "ExecFn c fnName b =
     (case GetFn c fnName of
        Inl err \<Rightarrow> Inl err
      | Inr customHandler \<Rightarrow>
          (case Handlers c customHandler of
             None \<Rightarrow> Inl (errors_New ''Parsed handler does not exist'')
           | Some fn \<Rightarrow> fn b))"

section \<open>fission.go: the orchestrator\<close>

subsection \<open>What the orchestrator is given\<close>

text \<open>
  Of a \<^verbatim>\<open>*Function\<close> the code reads the field \<^verbatim>\<open>name\<close>, and of an
  \<^verbatim>\<open>*ExecutionReport\<close> it writes the field \<^verbatim>\<open>Response\<close>; both structs are declared
  outside fission.go with further fields, which stay in the extension part of the records.
\<close>

record Function =
  name :: string

record ExecutionReport =
  Response :: string

text \<open>
  The Platform is the external simulation engine. Its methods are parameters: functions
  on the Platform's state \<open>'p\<close>. \<^verbatim>\<open>Get\<close> is a lookup, \<^verbatim>\<open>Define\<close> registers a
  configuration \<open>'c\<close> under a name, \<^verbatim>\<open>Run\<close> takes the optional runtime override
  (\<open>None\<close> for a nil pointer) and \<^verbatim>\<open>deploy\<close> is the method the tap goroutine calls.
\<close>

record ('p, 'c, 'm, 'r) Platform =
  Platform_Get :: "'p \<Rightarrow> string \<Rightarrow> 'm Function_scheme option"
  Platform_Define :: "'p \<Rightarrow> string \<Rightarrow> 'c \<Rightarrow> 'p"
  Platform_Run :: "'p \<Rightarrow> string \<Rightarrow> Duration option \<Rightarrow> (error + 'r ExecutionReport_scheme) \<times> 'p"
  Platform_deploy :: "'p \<Rightarrow> 'm Function_scheme \<Rightarrow> error option \<times> 'p"

record ('p, 'c, 'm, 'r) Fission =
  Platform :: "('p, 'c, 'm, 'r) Platform"
  FnFactory :: "string \<Rightarrow> 'c"
  CreateUndefinedFunctions :: bool
  CustomFn :: CustomHandler

text \<open>
  The functions of the standard library that the orchestrator calls on data:
  \<^verbatim>\<open>url.Parse\<close>, \<^verbatim>\<open>strconv.ParseFloat(_, 64)\<close>, the conversion
  \<^verbatim>\<open>time.Duration(seconds * float64(time.Second))\<close>, \<^verbatim>\<open>json.Unmarshal\<close> into an
  \<^verbatim>\<open>ObjectMeta\<close> and \<^verbatim>\<open>json.Marshal\<close> of a report.
\<close>

record ObjectMeta =
  Name :: string

record 'r stdlib =
  url_Parse :: "string \<Rightarrow> error + URL"
  strconv_ParseFloat :: "string \<Rightarrow> error + float64"
  Duration_of_seconds :: "float64 \<Rightarrow> Duration"
  json_Unmarshal :: "string \<Rightarrow> error + ObjectMeta"
  json_Marshal :: "'r ExecutionReport_scheme \<Rightarrow> error + string"

subsection \<open>The state the operations act on\<close>

text \<open>
  Every call that the orchestrator makes on the Platform or on the factory is recorded,
  in order; \<open>goroutines\<close> holds the functions whose deployment a \<^verbatim>\<open>go\<close> statement
  has started.
\<close>

datatype 'c call =
    CGet string
  | CFactory string
  | CDefine string 'c
  | CRun string "Duration option"

record ('p, 'c, 'm) world =
  platform :: 'p
  calls :: "'c call list"
  goroutines :: "'m Function_scheme list"

definition call_Get ::
  "('p, 'c, 'm, 'r) Fission \<Rightarrow> string \<Rightarrow> ('p, 'c, 'm) world \<Rightarrow>
   'm Function_scheme option \<times> ('p, 'c, 'm) world" where
  "call_Get f fnName s =
     (Platform_Get (Platform f) (platform s) fnName, s\<lparr>calls := calls s @ [CGet fnName]\<rparr>)"

definition call_FnFactory ::
  "('p, 'c, 'm, 'r) Fission \<Rightarrow> string \<Rightarrow> ('p, 'c, 'm) world \<Rightarrow> 'c \<times> ('p, 'c, 'm) world" where
  "call_FnFactory f fnName s = (FnFactory f fnName, s\<lparr>calls := calls s @ [CFactory fnName]\<rparr>)"

definition call_Define ::
  "('p, 'c, 'm, 'r) Fission \<Rightarrow> string \<Rightarrow> 'c \<Rightarrow> ('p, 'c, 'm) world \<Rightarrow> ('p, 'c, 'm) world" where
  "call_Define f fnName fnCfg s =
     s\<lparr>platform := Platform_Define (Platform f) (platform s) fnName fnCfg,
       calls := calls s @ [CDefine fnName fnCfg]\<rparr>"

definition call_Run ::
  "('p, 'c, 'm, 'r) Fission \<Rightarrow> string \<Rightarrow> Duration option \<Rightarrow> ('p, 'c, 'm) world \<Rightarrow>
   (error + 'r ExecutionReport_scheme) \<times> ('p, 'c, 'm) world" where
  "call_Run f fnName runtime s =
     (case Platform_Run (Platform f) (platform s) fnName runtime of
        (res, p') \<Rightarrow> (res, s\<lparr>platform := p', calls := calls s @ [CRun fnName runtime]\<rparr>))"

text \<open>The body of the goroutine of \<open>TapService\<close>: the error of \<^verbatim>\<open>deploy\<close> is dropped.\<close>

definition run_goroutine ::
  "('p, 'c, 'm, 'r) Fission \<Rightarrow> 'm Function_scheme \<Rightarrow> ('p, 'c, 'm) world \<Rightarrow> ('p, 'c, 'm) world" where
  "run_goroutine f fn s = s\<lparr>platform := snd (Platform_deploy (Platform f) (platform s) fn)\<rparr>"

subsection \<open>Function identities\<close>

definition getFunctionNameFromUrl :: "URL \<Rightarrow> string" where
  "getFunctionNameFromUrl url = drop (nat (LastIndex (Path url) CHR ''/'' + 1)) (Path url)"

definition svc2fn :: "'r stdlib \<Rightarrow> string \<Rightarrow> string" where
  "svc2fn std svc =
     (case url_Parse std svc of
        Inl err \<Rightarrow> svc
      | Inr svcURL \<Rightarrow> Host svcURL)"

definition useCustomFn :: "Values \<Rightarrow> bool" where
  "useCustomFn h = (Values_Get h CUSTOM_FN_HEADER \<noteq> [])"

subsection \<open>The operations\<close>

text \<open>The calls of \<^verbatim>\<open>log.Printf\<close> are left out: they write to the log only.\<close>

definition createIfUndefined ::
  "('p, 'c, 'm, 'r) Fission \<Rightarrow> string \<Rightarrow> ('p, 'c, 'm) world \<Rightarrow> ('p, 'c, 'm) world" where
  "createIfUndefined f fnName s =
     (if CreateUndefinedFunctions f then
        (case call_Get f fnName s of
           (None, s1) \<Rightarrow>
             (case call_FnFactory f fnName s1 of
                (fnCfg, s2) \<Rightarrow> call_Define f fnName fnCfg s2)
         | (Some fn, s1) \<Rightarrow> s1)
      else s)"

definition GetServiceForFunction ::
  "('p, 'c, 'm, 'r) Fission \<Rightarrow> string \<Rightarrow> ('p, 'c, 'm) world \<Rightarrow>
   (error + string) \<times> ('p, 'c, 'm) world" where
  "GetServiceForFunction f fnName s =
     (case call_Get f fnName (createIfUndefined f fnName s) of
        (None, s') \<Rightarrow> (Inl ErrFunctionNotFound, s')
      | (Some fn, s') \<Rightarrow> (Inr (name fn), s'))"

text \<open>The result of \<open>TapService\<close> is Go's \<^verbatim>\<open>error\<close>: \<open>None\<close> is \<^verbatim>\<open>nil\<close>.\<close>

definition TapService ::
  "('p, 'c, 'm, 'r) Fission \<Rightarrow> 'r stdlib \<Rightarrow> string \<Rightarrow> ('p, 'c, 'm) world \<Rightarrow>
   error option \<times> ('p, 'c, 'm) world" where
  "TapService f std svcURL s =
     (if length svcURL = 0 then (Some (errors_New ''no url provided to tap''), s)
      else
        (let fnName = svc2fn std svcURL
         in case call_Get f fnName (createIfUndefined f fnName s) of
              (None, s') \<Rightarrow> (Some ErrFunctionNotFound, s')
            | (Some fn, s') \<Rightarrow> (None, s'\<lparr>goroutines := goroutines s' @ [fn]\<rparr>)))"

definition Run ::
  "('p, 'c, 'm, 'r) Fission \<Rightarrow> Request \<Rightarrow> Duration option \<Rightarrow> ('p, 'c, 'm) world \<Rightarrow>
   (error + 'r ExecutionReport_scheme) \<times> ('p, 'c, 'm) world" where
  "Run f r runtime s =
     (let fnName = getFunctionNameFromUrl (URL r)
      in case call_Run f fnName runtime (createIfUndefined f fnName s) of
           (Inl err, s') \<Rightarrow> (Inl err, s')
         | (Inr report, s') \<Rightarrow>
             (if useCustomFn (Header r) then
                (case Body r of
                   Inl err \<Rightarrow> (Inl err, s')
                 | Inr body \<Rightarrow>
                     (case ExecFn (CustomFn f) fnName body of
                        Inl err \<Rightarrow> (Inl err, s')
                      | Inr res \<Rightarrow> (Inr (report\<lparr>Response := res\<rparr>), s')))
              else (Inr report, s')))"

subsection \<open>The HTTP handlers\<close>

definition HandleGetServiceForFunction ::
  "('p, 'c, 'm, 'r) Fission \<Rightarrow> 'r stdlib \<Rightarrow> ResponseWriter \<Rightarrow> Request \<Rightarrow>
   ('p, 'c, 'm) world \<Rightarrow> ResponseWriter \<times> ('p, 'c, 'm) world" where
  "HandleGetServiceForFunction f std w r s =
     (case Body r of
        Inl err \<Rightarrow> (http_Error w ''failed to read function metadata'' 400, s)
      | Inr bs \<Rightarrow>
          (case json_Unmarshal std bs of
             Inl err \<Rightarrow> (http_Error w ''failed to parse function metadata'' 400, s)
           | Inr meta \<Rightarrow>
               (case GetServiceForFunction f (Name meta) s of
                  (Inl err, s') \<Rightarrow> (http_Error w (Error err) 404, s')
                | (Inr svc, s') \<Rightarrow> (Write (WriteHeader w StatusOK) svc, s'))))"

definition HandleTapService ::
  "('p, 'c, 'm, 'r) Fission \<Rightarrow> 'r stdlib \<Rightarrow> ResponseWriter \<Rightarrow> Request \<Rightarrow>
   ('p, 'c, 'm) world \<Rightarrow> ResponseWriter \<times> ('p, 'c, 'm) world" where
  "HandleTapService f std w r s =
     (case Body r of
        Inl err \<Rightarrow> (http_Error w ''failed to parse service to tap'' 400, s)
      | Inr bs \<Rightarrow>
          (case TapService f std bs s of
             (Some err, s') \<Rightarrow> (http_Error w ''failed to parse service to tap'' 400, s')
           | (None, s') \<Rightarrow> (WriteHeader w StatusOK, s')))"

definition HandleFunctionsGet ::
  "ResponseWriter \<Rightarrow> Request \<Rightarrow> ('p, 'c, 'm) world \<Rightarrow> ResponseWriter \<times> ('p, 'c, 'm) world" where
  "HandleFunctionsGet w r s = (Write (WriteHeader w StatusOK) ''{}'', s)"

text \<open>
  \<^verbatim>\<open>var seconds float64\<close> starts as the zero value, whose bit pattern is \<open>0\<close>, and is
  assigned only when the query parameter is not empty. \<open>Run\<close> is always given
  \<^verbatim>\<open>&runtime\<close>, a pointer that is not nil.
\<close>

definition HandleFunctionRun ::
  "('p, 'c, 'm, 'r) Fission \<Rightarrow> 'r stdlib \<Rightarrow> ResponseWriter \<Rightarrow> Request \<Rightarrow>
   ('p, 'c, 'm) world \<Rightarrow> ResponseWriter \<times> ('p, 'c, 'm) world" where
  "HandleFunctionRun f std w r s =
     (let queryRuntime = Values_Get (Query (URL r)) ''runtime''
      in case (if length queryRuntime > 0 then strconv_ParseFloat std queryRuntime else Inr 0) of
           Inl err \<Rightarrow> (http_Error w (Error err) StatusBadRequest, s)
         | Inr seconds \<Rightarrow>
             (let runtime = Duration_of_seconds std seconds
              in case Run f r (Some runtime) s of
                   (Inl err, s') \<Rightarrow> (http_Error w (Error err) StatusBadRequest, s')
                 | (Inr report, s') \<Rightarrow>
                     (case json_Marshal std report of
                        Inl err \<Rightarrow> (http_Error w (Error err) StatusInternalServerError, s')
                      | Inr result \<Rightarrow> (Write (WriteHeader w StatusOK) result, s'))))"

text \<open>
  The four patterns of \<open>Serve\<close> are a literal followed, for two of them, by
  \<^verbatim>\<open>.*\<close>, which also matches nothing; \<^verbatim>\<open>MatchString\<close> is not anchored, so each
  pattern matches the paths that contain its literal.
\<close>

fun has_substring :: "string \<Rightarrow> string \<Rightarrow> bool" where
  "has_substring lit [] = (lit = [])"
| "has_substring lit (x # xs) = (take (length lit) (x # xs) = lit \<or> has_substring lit xs)"

definition Serve ::
  "('p, 'c, 'm, 'r) Fission \<Rightarrow> 'r stdlib \<Rightarrow> ('p, 'c, 'm) world RegexpHandler" where
  "Serve f std =
     (let handler0 = \<lparr>routes = []\<rparr>;
          handler1 = HandleFunc handler0 (has_substring ''/v2/functions/'') HandleFunctionsGet;
          handler2 = HandleFunc handler1 (has_substring ''/v2/tapService'') (HandleTapService f std);
          handler3 = HandleFunc handler2 (has_substring ''/v2/getServiceForFunction'')
                       (HandleGetServiceForFunction f std);
          handler4 = HandleFunc handler3 (has_substring ''/fission-function/'')
                       (HandleFunctionRun f std)
      in handler4)"

section \<open>The specification's wording of the path identity\<close>

text \<open>
  The specification derives the identity of an invocation as "the last
  \<^verbatim>\<open>/\<close>-delimited path segment". This definition follows those words; it is compared
  with \<open>getFunctionNameFromUrl\<close> below.
\<close>

definition last_path_segment :: "string \<Rightarrow> string" where
  "last_path_segment path = last (Split path CHR ''/'')"

section \<open>A small instance to run the operations on\<close>

text \<open>
  A Platform that keeps the registered configurations in an association list, a factory,
  a dispatcher with two generators, and stand-ins for the library functions that know
  the few inputs used below.
\<close>

definition demo_Platform :: "((string \<times> nat) list, nat, unit, unit) Platform" where
  "demo_Platform =
     \<lparr>Platform_Get = (\<lambda>p n. map_option (\<lambda>c. \<lparr>name = n\<rparr>) (map_of p n)),
      Platform_Define = (\<lambda>p n c. (n, c) # p),
      Platform_Run = (\<lambda>p n rt.
         case map_of p n of
           None \<Rightarrow> (Inl ErrFunctionNotFound, p)
         | Some c \<Rightarrow> (Inr \<lparr>Response = ''simulated''\<rparr>, p)),
      Platform_deploy = (\<lambda>p fn. (None, p))\<rparr>"

definition demo_CustomFn :: CustomHandler where
  "demo_CustomFn =
     \<lparr>GetFn = (\<lambda>n. if n = [] then Inl (errors_New ''no key'') else Inr n),
      Handlers = [''echo'' \<mapsto> (\<lambda>b. Inr (''echo:'' @ b)),
                  ''fail'' \<mapsto> (\<lambda>b. Inl (errors_New ''generator failed''))]\<rparr>"

definition demo_Fission :: "bool \<Rightarrow> ((string \<times> nat) list, nat, unit, unit) Fission" where
  "demo_Fission auto =
     \<lparr>Platform = demo_Platform, FnFactory = length,
      CreateUndefinedFunctions = auto, CustomFn = demo_CustomFn\<rparr>"

definition demo_std :: "unit stdlib" where
  "demo_std =
     \<lparr>url_Parse = (\<lambda>s.
         if s = ''http://foo.bar/baz''
         then Inr \<lparr>Path = ''/baz'', Host = ''foo.bar'', Query = Map.empty\<rparr>
         else Inl (errors_New ''parse error'')),
      strconv_ParseFloat = (\<lambda>s.
         if s = ''2.5'' then Inr 0x4004000000000000 else Inl (errors_New ''invalid syntax'')),
      Duration_of_seconds = (\<lambda>x. if x = 0x4004000000000000 then 2500000000 else 0),
      json_Unmarshal = (\<lambda>bs.
         if bs = ''{}'' then Inr \<lparr>Name = []\<rparr> else Inl (errors_New ''unexpected end of JSON input'')),
      json_Marshal = (\<lambda>rep. Inr (Response rep))\<rparr>"

definition demo_world :: "(string \<times> nat) list \<Rightarrow> ((string \<times> nat) list, nat, unit) world" where
  "demo_world p = \<lparr>platform = p, calls = [], goroutines = []\<rparr>"

definition demo_request :: "string \<Rightarrow> Values \<Rightarrow> Values \<Rightarrow> string \<Rightarrow> Request" where
  "demo_request path query hdr bs =
     \<lparr>URL = \<lparr>Path = path, Host = [], Query = query\<rparr>, Header = hdr, Body = Inr bs\<rparr>"

definition new_writer :: ResponseWriter where
  "new_writer = \<lparr>wstatus = None, wbody = []\<rparr>"

definition demo_router :: "unit RegexpHandler" where
  "demo_router =
     Handler
       (Handler
          (Handler \<lparr>routes = []\<rparr> (has_substring ''/v2/'') (\<lambda>w r s. (Write w ''first'', s)))
          (has_substring ''/v2/a'') (\<lambda>w r s. (Write w ''second'', s)))
       (has_substring ''/v2/b'') (\<lambda>w r s. (Write w ''third'', s))"

section \<open>Properties of the string functions and of the router loop\<close>

lemma Split_not_Nil: "Split s c \<noteq> []"
  by (induction s) auto

lemma LastIndex_ge: "- 1 \<le> LastIndex s c"
  by (induction s) (auto simp: Let_def)

lemma LastIndex_neg_iff: "LastIndex s c < 0 \<longleftrightarrow> c \<notin> set s"
  by (induction s) (auto simp: Let_def)

lemma LastIndex_absent: "c \<notin> set s \<Longrightarrow> LastIndex s c = - 1"
  using LastIndex_ge [of s c] LastIndex_neg_iff [of s c] by linarith

lemma tl_Split_Nil_iff: "tl (Split s c) = [] \<longleftrightarrow> c \<notin> set s"
  by (induction s) (auto simp: Split_not_Nil)

lemma hd_Split: "hd (Split s c) = takeWhile (\<lambda>x. x \<noteq> c) s"
  by (induction s) auto

lemma last_Split: "last (Split s c) = drop (nat (LastIndex s c + 1)) s"
proof (induction s)
  case Nil
  show ?case by simp
next
  case (Cons x xs)
  show ?case
  proof (cases "c \<in> set xs")
    case True
    then have r: "0 \<le> LastIndex xs c"
      using LastIndex_neg_iff [of xs c] by linarith
    have t: "tl (Split xs c) \<noteq> []"
      using True by (simp add: tl_Split_Nil_iff)
    have "last (Split (x # xs) c) = last (Split xs c)"
      using t Split_not_Nil [of xs c] by (cases "Split xs c") auto
    moreover have "drop (nat (LastIndex (x # xs) c + 1)) (x # xs) = drop (nat (LastIndex xs c + 1)) xs"
      using r by (simp add: Let_def nat_add_distrib)
    ultimately show ?thesis using Cons.IH by simp
  next
    case False
    then have r: "LastIndex xs c = - 1" by (rule LastIndex_absent)
    have t: "tl (Split xs c) = []" using False by (simp add: tl_Split_Nil_iff)
    have h: "hd (Split xs c) = xs"
      using False by (auto simp: hd_Split takeWhile_eq_all_conv)
    have S: "Split xs c = [xs]"
      using t h Split_not_Nil [of xs c] by (cases "Split xs c") auto
    show ?thesis using r S by (simp add: Let_def)
  qed
qed

lemma LastIndex_append_sep: "LastIndex (pre @ [c]) c = int (length pre)"
  by (induction pre) (auto simp: Let_def)

lemma route_loop_None: "route_loop rs p n = None \<longleftrightarrow> (\<forall>k<n. \<not> pattern (rs ! k) p)"
  by (induction n) (auto simp: less_Suc_eq)

lemma route_loop_Some:
  "route_loop rs p n = Some k \<longleftrightarrow>
     k < n \<and> pattern (rs ! k) p \<and> (\<forall>m. k < m \<and> m < n \<longrightarrow> \<not> pattern (rs ! m) p)"
proof (induction n)
  case 0
  show ?case by simp
next
  case (Suc n)
  show ?case
  proof (cases "pattern (rs ! n) p")
    case True
    then show ?thesis
      by (auto simp: less_Suc_eq)
  next
    case False
    then show ?thesis using Suc.IH
      by (auto simp: less_Suc_eq)
  qed
qed

lemma route_loop_match_ex:
  assumes "j < n" "pattern (rs ! j) p"
  shows "\<exists>k. route_loop rs p n = Some k \<and> j \<le> k"
proof (cases "route_loop rs p n")
  case None
  then show ?thesis using assms by (simp add: route_loop_None)
next
  case (Some k)
  then have "\<not> k < j" using assms by (auto simp: route_loop_Some)
  then show ?thesis using Some by simp
qed

text \<open>
  C1. The router scans its bindings from the last registered to the first and invokes
  the handler of the first one it finds matching. So whenever a pattern registered at
  position \<open>i\<close> and a later one at position \<open>j\<close> both match the path, the handler
  at \<open>i\<close> is never the one invoked: the one invoked is the most recently registered
  matching binding, at some position \<open>k \<ge> j\<close>, and it is the binding at \<open>j\<close>
  when no binding registered after it matches. When no binding matches, the response is
  the standard not-found response and nothing else changes. The path matched is the
  request path up to its first \<^verbatim>\<open>?\<close>.
\<close>

theorem ServeHTTP_last_registered_wins:
  "(\<forall>i j. i < j \<and> j < length (routes h)
        \<and> pattern (routes h ! i) (route_path r) \<and> pattern (routes h ! j) (route_path r) \<longrightarrow>
      selected_route h r \<noteq> Some i
      \<and> (\<exists>k. selected_route h r = Some k \<and> j \<le> k \<and> k < length (routes h)
             \<and> pattern (routes h ! k) (route_path r)
             \<and> (\<forall>m. k < m \<and> m < length (routes h) \<longrightarrow> \<not> pattern (routes h ! m) (route_path r))
             \<and> ServeHTTP h w r s = handler (routes h ! k) w r s)
      \<and> ((\<forall>m. j < m \<and> m < length (routes h) \<longrightarrow> \<not> pattern (routes h ! m) (route_path r)) \<longrightarrow>
            selected_route h r = Some j \<and> ServeHTTP h w r s = handler (routes h ! j) w r s))
   \<and> ((\<forall>k < length (routes h). \<not> pattern (routes h ! k) (route_path r)) \<longrightarrow>
        selected_route h r = None \<and> ServeHTTP h w r s = (http_NotFound w r, s))"
proof (intro conjI allI impI)
  fix i j
  assume a: "i < j \<and> j < length (routes h)
        \<and> pattern (routes h ! i) (route_path r) \<and> pattern (routes h ! j) (route_path r)"
  then obtain k where k: "selected_route h r = Some k" "j \<le> k"
    using route_loop_match_ex [of j "length (routes h)" "routes h" "route_path r"]
    by (auto simp: selected_route_def)
  show "selected_route h r \<noteq> Some i" using k a by simp
  have props: "k < length (routes h)" "pattern (routes h ! k) (route_path r)"
    "\<forall>m. k < m \<and> m < length (routes h) \<longrightarrow> \<not> pattern (routes h ! m) (route_path r)"
    using k(1) by (simp_all add: selected_route_def route_loop_Some)
  have "ServeHTTP h w r s = handler (routes h ! k) w r s"
    using k(1) by (simp add: ServeHTTP_def)
  then show "\<exists>k. selected_route h r = Some k \<and> j \<le> k \<and> k < length (routes h)
             \<and> pattern (routes h ! k) (route_path r)
             \<and> (\<forall>m. k < m \<and> m < length (routes h) \<longrightarrow> \<not> pattern (routes h ! m) (route_path r))
             \<and> ServeHTTP h w r s = handler (routes h ! k) w r s"
    using k props by blast
  assume last: "\<forall>m. j < m \<and> m < length (routes h) \<longrightarrow> \<not> pattern (routes h ! m) (route_path r)"
  have sel: "selected_route h r = Some j"
    using a last by (simp add: selected_route_def route_loop_Some)
  show "selected_route h r = Some j" by (rule sel)
  show "ServeHTTP h w r s = handler (routes h ! j) w r s"
    using sel by (simp add: ServeHTTP_def)
next
  assume none: "\<forall>k < length (routes h). \<not> pattern (routes h ! k) (route_path r)"
  then have sel: "selected_route h r = None"
    by (simp add: selected_route_def route_loop_None)
  show "selected_route h r = None" by (rule sel)
  show "ServeHTTP h w r s = (http_NotFound w r, s)"
    using sel by (simp add: ServeHTTP_def)
qed


lemma demo_routes: "routes demo_router =
  [\<lparr>pattern = has_substring ''/v2/'', handler = (\<lambda>w r s. (Write w ''first'', s))\<rparr>,
   \<lparr>pattern = has_substring ''/v2/a'', handler = (\<lambda>w r s. (Write w ''second'', s))\<rparr>,
   \<lparr>pattern = has_substring ''/v2/b'', handler = (\<lambda>w r s. (Write w ''third'', s))\<rparr>]"
  by (simp add: demo_router_def Handler_def)

theorem ServeHTTP_last_registered_wins_witness:
  "ServeHTTP demo_router new_writer (demo_request ''/v2/a'' Map.empty Map.empty []) ()
     = (\<lparr>wstatus = Some 200, wbody = ''second''\<rparr>, ())
   \<and> selected_route demo_router (demo_request ''/v2/a'' Map.empty Map.empty []) \<noteq> Some 0
   \<and> ServeHTTP demo_router new_writer (demo_request ''/other'' Map.empty Map.empty []) ()
     = (\<lparr>wstatus = Some 404, wbody = ''404 page not found'' @ [CHR 0x0A]\<rparr>, ())"
proof -
  let ?r = "demo_request ''/v2/a'' Map.empty Map.empty []"
  let ?q = "demo_request ''/other'' Map.empty Map.empty []"
  have p: "route_path ?r = ''/v2/a''" "route_path ?q = ''/other''"
    by (simp_all add: route_path_def demo_request_def)
  have hyp: "(0::nat) < 1 \<and> 1 < length (routes demo_router)
      \<and> pattern (routes demo_router ! 0) (route_path ?r)
      \<and> pattern (routes demo_router ! 1) (route_path ?r)"
    by (simp add: demo_routes p)
  have lastm: "\<forall>m. 1 < m \<and> m < length (routes demo_router) \<longrightarrow>
      \<not> pattern (routes demo_router ! m) (route_path ?r)"
  proof (intro allI impI)
    fix m assume "1 < m \<and> m < length (routes demo_router)"
    then have "m = 2" by (simp add: demo_routes)
    then show "\<not> pattern (routes demo_router ! m) (route_path ?r)"
      by (simp add: demo_routes p)
  qed
  have none: "\<forall>k < length (routes demo_router). \<not> pattern (routes demo_router ! k) (route_path ?q)"
    by (simp add: demo_routes p less_Suc_eq numeral_3_eq_3)
  have a: "selected_route demo_router ?r \<noteq> Some 0
     \<and> ServeHTTP demo_router new_writer ?r () = handler (routes demo_router ! 1) new_writer ?r ()"
    using ServeHTTP_last_registered_wins [of demo_router ?r new_writer "()"] hyp lastm by blast
  have b: "ServeHTTP demo_router new_writer ?q () = (http_NotFound new_writer ?q, ())"
    using ServeHTTP_last_registered_wins [of demo_router ?q new_writer "()"] none by blast
  show ?thesis using a b
    by (simp add: demo_routes Write_def WriteHeader_def new_writer_def http_NotFound_def http_Error_def)
qed

section \<open>Properties of the identity functions\<close>

lemma LastIndex_nth:
  "0 \<le> LastIndex s c \<Longrightarrow> nat (LastIndex s c) < length s \<and> s ! nat (LastIndex s c) = c"
proof (induction s)
  case Nil
  then show ?case by simp
next
  case (Cons x xs)
  show ?case
  proof (cases "0 \<le> LastIndex xs c")
    case True
    then show ?thesis using Cons.IH by (simp add: Let_def nat_add_distrib)
  next
    case False
    then show ?thesis using Cons.prems by (auto simp: Let_def split: if_splits)
  qed
qed

lemma sep_notin_drop_LastIndex: "c \<notin> set (drop (nat (LastIndex s c + 1)) s)"
proof (induction s)
  case Nil
  show ?case by simp
next
  case (Cons x xs)
  show ?case
  proof (cases "0 \<le> LastIndex xs c")
    case True
    then show ?thesis using Cons.IH by (simp add: Let_def nat_add_distrib)
  next
    case False
    then have "c \<notin> set xs" using LastIndex_neg_iff [of xs c] by simp
    then show ?thesis using False by (auto simp: Let_def dest: in_set_dropD)
  qed
qed

lemma take_LastIndex_ends_with_sep:
  "take (nat (LastIndex s c + 1)) s = [] \<or> last (take (nat (LastIndex s c + 1)) s) = c"
proof (cases "0 \<le> LastIndex s c")
  case True
  then have k: "nat (LastIndex s c) < length s" "s ! nat (LastIndex s c) = c"
    using LastIndex_nth by blast+
  have "nat (LastIndex s c + 1) = Suc (nat (LastIndex s c))" using True by simp
  then have "take (nat (LastIndex s c + 1)) s = take (nat (LastIndex s c)) s @ [c]"
    using k by (simp add: take_Suc_conv_app_nth)
  then show ?thesis by simp
next
  case False
  then have "LastIndex s c = - 1" using LastIndex_ge [of s c] by linarith
  then show ?thesis by simp
qed

section \<open>Properties of the orchestrator\<close>

lemma createIfUndefined_disabled:
  "\<not> CreateUndefinedFunctions f \<Longrightarrow> createIfUndefined f n s = s"
  by (simp add: createIfUndefined_def)

lemma createIfUndefined_unknown:
  "CreateUndefinedFunctions f \<Longrightarrow> Platform_Get (Platform f) (platform s) n = None \<Longrightarrow>
   createIfUndefined f n s =
     s\<lparr>platform := Platform_Define (Platform f) (platform s) n (FnFactory f n),
       calls := calls s @ [CGet n, CFactory n, CDefine n (FnFactory f n)]\<rparr>"
  by (simp add: createIfUndefined_def call_Get_def call_FnFactory_def call_Define_def)

lemma createIfUndefined_known:
  "CreateUndefinedFunctions f \<Longrightarrow> Platform_Get (Platform f) (platform s) n = Some fn \<Longrightarrow>
   createIfUndefined f n s = s\<lparr>calls := calls s @ [CGet n]\<rparr>"
  by (simp add: createIfUndefined_def call_Get_def)

lemma GetServiceForFunction_calls:
  "calls (snd (GetServiceForFunction f n s)) = calls (createIfUndefined f n s) @ [CGet n]"
  by (simp add: GetServiceForFunction_def call_Get_def split: option.splits)

lemma TapService_calls:
  "svc \<noteq> [] \<Longrightarrow>
   calls (snd (TapService f std svc s)) =
     calls (createIfUndefined f (svc2fn std svc) s) @ [CGet (svc2fn std svc)]"
  by (simp add: TapService_def call_Get_def Let_def split: option.splits)

lemma Run_state:
  "snd (Run f r rt s) =
     snd (call_Run f (getFunctionNameFromUrl (URL r)) rt
            (createIfUndefined f (getFunctionNameFromUrl (URL r)) s))"
  by (simp add: Run_def Let_def split: prod.splits sum.splits)

lemma call_Run_calls: "calls (snd (call_Run f n rt s)) = calls s @ [CRun n rt]"
  by (simp add: call_Run_def split: prod.splits)

lemma Run_calls:
  "calls (snd (Run f r rt s)) =
     calls (createIfUndefined f (getFunctionNameFromUrl (URL r)) s)
       @ [CRun (getFunctionNameFromUrl (URL r)) rt]"
  by (simp add: Run_state call_Run_calls)

lemma HandleFunctionRun_state:
  "(if Values_Get (Query (URL r)) ''runtime'' \<noteq> []
    then strconv_ParseFloat std (Values_Get (Query (URL r)) ''runtime'') else Inr 0) = Inr x \<Longrightarrow>
   snd (HandleFunctionRun f std w r s) = snd (Run f r (Some (Duration_of_seconds std x)) s)"
  by (simp add: HandleFunctionRun_def Let_def split: prod.splits sum.splits)

section \<open>The instance evaluated\<close>

lemma demo_name_foo: "getFunctionNameFromUrl (URL (demo_request ''/fission-function/foo.bar'' q h b)) = ''foo.bar''"
  by (simp add: getFunctionNameFromUrl_def demo_request_def)

lemma demo_svc_foo: "svc2fn demo_std ''http://foo.bar/baz'' = ''foo.bar''"
  by (simp add: svc2fn_def demo_std_def)

lemma demo_name_echo: "getFunctionNameFromUrl (URL (demo_request ''/fission-function/echo'' q h b)) = ''echo''"
  by (simp add: getFunctionNameFromUrl_def demo_request_def)

lemma demo_name_fail: "getFunctionNameFromUrl (URL (demo_request ''/fission-function/fail'' q h b)) = ''fail''"
  by (simp add: getFunctionNameFromUrl_def demo_request_def)

lemma demo_name_myfn: "getFunctionNameFromUrl (URL (demo_request ''/fission-function/myfn'' q h b)) = ''myfn''"
  by (simp add: getFunctionNameFromUrl_def demo_request_def)

lemma demo_name_empty: "getFunctionNameFromUrl (URL (demo_request ''/fission-function/'' q h b)) = []"
  by (simp add: getFunctionNameFromUrl_def demo_request_def)

section \<open>Auto-creation\<close>

text \<open>
  C2. With auto-creation enabled and a name \<open>n\<close> the Platform does not know, each of
  \<open>GetServiceForFunction\<close>, \<open>TapService\<close> (on a non-empty service URL whose identity
  is \<open>n\<close>) and \<open>Run\<close> (on a request whose identity is \<open>n\<close>) first looks \<open>n\<close> up,
  calls the factory on \<open>n\<close> once and registers \<open>n\<close> once, with the configuration the
  factory returned for \<open>n\<close>, and only then makes its own Platform call. When the Platform
  knows \<open>n\<close>, the same operations call neither the factory nor \<^verbatim>\<open>Define\<close>.
\<close>

theorem auto_creation_registers_once:
  assumes "CreateUndefinedFunctions f"
  shows "(Platform_Get (Platform f) (platform s) n = None \<longrightarrow>
            createIfUndefined f n s =
              s\<lparr>platform := Platform_Define (Platform f) (platform s) n (FnFactory f n),
                calls := calls s @ [CGet n, CFactory n, CDefine n (FnFactory f n)]\<rparr>
          \<and> calls (snd (GetServiceForFunction f n s)) =
              calls s @ [CGet n, CFactory n, CDefine n (FnFactory f n), CGet n]
          \<and> (svc \<noteq> [] \<and> svc2fn std svc = n \<longrightarrow>
               calls (snd (TapService f std svc s)) =
                 calls s @ [CGet n, CFactory n, CDefine n (FnFactory f n), CGet n])
          \<and> (getFunctionNameFromUrl (URL r) = n \<longrightarrow>
               calls (snd (Run f r rt s)) =
                 calls s @ [CGet n, CFactory n, CDefine n (FnFactory f n), CRun n rt]))
       \<and> (Platform_Get (Platform f) (platform s) n \<noteq> None \<longrightarrow>
            createIfUndefined f n s = s\<lparr>calls := calls s @ [CGet n]\<rparr>
          \<and> calls (snd (GetServiceForFunction f n s)) = calls s @ [CGet n, CGet n]
          \<and> (svc \<noteq> [] \<and> svc2fn std svc = n \<longrightarrow>
               calls (snd (TapService f std svc s)) = calls s @ [CGet n, CGet n])
          \<and> (getFunctionNameFromUrl (URL r) = n \<longrightarrow>
               calls (snd (Run f r rt s)) = calls s @ [CGet n, CRun n rt]))"
proof (intro conjI impI)
  assume u: "Platform_Get (Platform f) (platform s) n = None"
  note c = createIfUndefined_unknown [OF assms u]
  show "createIfUndefined f n s =
      s\<lparr>platform := Platform_Define (Platform f) (platform s) n (FnFactory f n),
        calls := calls s @ [CGet n, CFactory n, CDefine n (FnFactory f n)]\<rparr>"
    by (rule c)
  show "calls (snd (GetServiceForFunction f n s)) =
      calls s @ [CGet n, CFactory n, CDefine n (FnFactory f n), CGet n]"
    by (simp add: GetServiceForFunction_calls c)
  { assume "svc \<noteq> [] \<and> svc2fn std svc = n"
    then show "calls (snd (TapService f std svc s)) =
        calls s @ [CGet n, CFactory n, CDefine n (FnFactory f n), CGet n]"
      using c by (simp add: TapService_calls) }
  { assume "getFunctionNameFromUrl (URL r) = n"
    then show "calls (snd (Run f r rt s)) =
        calls s @ [CGet n, CFactory n, CDefine n (FnFactory f n), CRun n rt]"
      using c by (simp add: Run_calls) }
next
  assume "Platform_Get (Platform f) (platform s) n \<noteq> None"
  then obtain fn where k: "Platform_Get (Platform f) (platform s) n = Some fn" by blast
  note c = createIfUndefined_known [OF assms k]
  show "createIfUndefined f n s = s\<lparr>calls := calls s @ [CGet n]\<rparr>"
    by (rule c)
  show "calls (snd (GetServiceForFunction f n s)) = calls s @ [CGet n, CGet n]"
    by (simp add: GetServiceForFunction_calls c)
  { assume "svc \<noteq> [] \<and> svc2fn std svc = n"
    then show "calls (snd (TapService f std svc s)) = calls s @ [CGet n, CGet n]"
      using c by (simp add: TapService_calls) }
  { assume "getFunctionNameFromUrl (URL r) = n"
    then show "calls (snd (Run f r rt s)) = calls s @ [CGet n, CRun n rt]"
      using c by (simp add: Run_calls) }
qed

theorem auto_creation_registers_once_witness:
  "calls (snd (GetServiceForFunction (demo_Fission True) ''foo.bar'' (demo_world []))) =
     [CGet ''foo.bar'', CFactory ''foo.bar'', CDefine ''foo.bar'' 7, CGet ''foo.bar'']
   \<and> calls (snd (TapService (demo_Fission True) demo_std ''http://foo.bar/baz'' (demo_world []))) =
     [CGet ''foo.bar'', CFactory ''foo.bar'', CDefine ''foo.bar'' 7, CGet ''foo.bar'']
   \<and> calls (snd (Run (demo_Fission True)
        (demo_request ''/fission-function/foo.bar'' Map.empty Map.empty []) None (demo_world []))) =
     [CGet ''foo.bar'', CFactory ''foo.bar'', CDefine ''foo.bar'' 7, CRun ''foo.bar'' None]
   \<and> calls (snd (GetServiceForFunction (demo_Fission True) ''foo.bar''
        (demo_world [(''foo.bar'', 7)]))) = [CGet ''foo.bar'', CGet ''foo.bar'']
   \<and> calls (snd (TapService (demo_Fission True) demo_std ''http://foo.bar/baz''
        (demo_world [(''foo.bar'', 7)]))) = [CGet ''foo.bar'', CGet ''foo.bar'']
   \<and> calls (snd (Run (demo_Fission True)
        (demo_request ''/fission-function/foo.bar'' Map.empty Map.empty []) None
        (demo_world [(''foo.bar'', 7)]))) = [CGet ''foo.bar'', CRun ''foo.bar'' None]"
proof -
  let ?f = "demo_Fission True"
  let ?r = "demo_request ''/fission-function/foo.bar'' Map.empty Map.empty []"
  have en: "CreateUndefinedFunctions ?f"
    by (simp add: demo_Fission_def)
  have unknown: "Platform_Get (Platform ?f) (platform (demo_world [])) ''foo.bar'' = None"
    by (simp add: demo_Fission_def demo_Platform_def demo_world_def)
  have known: "Platform_Get (Platform ?f) (platform (demo_world [(''foo.bar'', 7)])) ''foo.bar'' \<noteq> None"
    by (simp add: demo_Fission_def demo_Platform_def demo_world_def)
  have svc: "''http://foo.bar/baz'' \<noteq> [] \<and> svc2fn demo_std ''http://foo.bar/baz'' = ''foo.bar''"
    by (simp add: demo_svc_foo)
  have cfg: "FnFactory ?f ''foo.bar'' = 7"
    by (simp add: demo_Fission_def)
  have c0: "calls (demo_world []) = []" "calls (demo_world [(''foo.bar'', 7)]) = []"
    by (simp_all add: demo_world_def)
  note u = auto_creation_registers_once [OF en, where s = "demo_world []" and n = "''foo.bar''"
      and svc = "''http://foo.bar/baz''" and std = demo_std and r = ?r and rt = None]
  note k = auto_creation_registers_once [OF en, where s = "demo_world [(''foo.bar'', 7)]"
      and n = "''foo.bar''" and svc = "''http://foo.bar/baz''" and std = demo_std
      and r = ?r and rt = None]
  show ?thesis
    using u unknown k known svc demo_name_foo [of Map.empty Map.empty "[]"]
    by (simp add: cfg c0)
qed

text \<open>
  C5. With auto-creation disabled and a name \<open>n\<close> the Platform does not know,
  \<open>GetServiceForFunction\<close> and \<open>TapService\<close> fail with \<open>ErrFunctionNotFound\<close> after
  a single lookup, and \<open>Run\<close> makes the Platform's run call only and returns its
  error: \<open>ErrFunctionNotFound\<close> when that is what the Platform's \<^verbatim>\<open>Run\<close> answers for an
  unknown name. In no case is the factory called or anything registered.
\<close>

theorem auto_creation_disabled_not_found:
  assumes "\<not> CreateUndefinedFunctions f"
      and "Platform_Get (Platform f) (platform s) n = None"
  shows "GetServiceForFunction f n s = (Inl ErrFunctionNotFound, s\<lparr>calls := calls s @ [CGet n]\<rparr>)
       \<and> (svc \<noteq> [] \<and> svc2fn std svc = n \<longrightarrow>
            TapService f std svc s = (Some ErrFunctionNotFound, s\<lparr>calls := calls s @ [CGet n]\<rparr>))
       \<and> (getFunctionNameFromUrl (URL r) = n \<longrightarrow>
            calls (snd (Run f r rt s)) = calls s @ [CRun n rt]
          \<and> (fst (Platform_Run (Platform f) (platform s) n rt) = Inl ErrFunctionNotFound \<longrightarrow>
               Run f r rt s =
                 (Inl ErrFunctionNotFound,
                  s\<lparr>platform := snd (Platform_Run (Platform f) (platform s) n rt),
                    calls := calls s @ [CRun n rt]\<rparr>)))"
proof (intro conjI impI)
  note d = createIfUndefined_disabled [OF assms(1)]
  show "GetServiceForFunction f n s = (Inl ErrFunctionNotFound, s\<lparr>calls := calls s @ [CGet n]\<rparr>)"
    using assms(2) by (simp add: GetServiceForFunction_def d call_Get_def)
  { assume "svc \<noteq> [] \<and> svc2fn std svc = n"
    then show "TapService f std svc s = (Some ErrFunctionNotFound, s\<lparr>calls := calls s @ [CGet n]\<rparr>)"
      using assms(2) by (simp add: TapService_def d call_Get_def) }
  { assume n: "getFunctionNameFromUrl (URL r) = n"
    then show "calls (snd (Run f r rt s)) = calls s @ [CRun n rt]"
      by (simp add: Run_calls d)
    assume "fst (Platform_Run (Platform f) (platform s) n rt) = Inl ErrFunctionNotFound"
    then show "Run f r rt s =
       (Inl ErrFunctionNotFound,
        s\<lparr>platform := snd (Platform_Run (Platform f) (platform s) n rt),
          calls := calls s @ [CRun n rt]\<rparr>)"
      using n by (cases "Platform_Run (Platform f) (platform s) n rt")
        (simp add: Run_def d call_Run_def) }
qed

theorem auto_creation_disabled_not_found_witness:
  "GetServiceForFunction (demo_Fission False) ''foo.bar'' (demo_world []) =
     (Inl ErrFunctionNotFound, \<lparr>platform = [], calls = [CGet ''foo.bar''], goroutines = []\<rparr>)
   \<and> TapService (demo_Fission False) demo_std ''http://foo.bar/baz'' (demo_world []) =
     (Some ErrFunctionNotFound, \<lparr>platform = [], calls = [CGet ''foo.bar''], goroutines = []\<rparr>)
   \<and> Run (demo_Fission False)
        (demo_request ''/fission-function/foo.bar'' Map.empty Map.empty []) None (demo_world []) =
     (Inl ErrFunctionNotFound, \<lparr>platform = [], calls = [CRun ''foo.bar'' None], goroutines = []\<rparr>)"
proof -
  let ?f = "demo_Fission False"
  let ?r = "demo_request ''/fission-function/foo.bar'' Map.empty Map.empty []"
  have dis: "\<not> CreateUndefinedFunctions ?f"
    by (simp add: demo_Fission_def)
  have unknown: "Platform_Get (Platform ?f) (platform (demo_world [])) ''foo.bar'' = None"
    by (simp add: demo_Fission_def demo_Platform_def demo_world_def)
  have svc: "''http://foo.bar/baz'' \<noteq> [] \<and> svc2fn demo_std ''http://foo.bar/baz'' = ''foo.bar''"
    by (simp add: demo_svc_foo)
  have run: "Platform_Run (Platform ?f) (platform (demo_world [])) ''foo.bar'' None
      = (Inl ErrFunctionNotFound, [])"
    by (simp add: demo_Fission_def demo_Platform_def demo_world_def)
  show ?thesis
    using auto_creation_disabled_not_found [OF dis unknown, where svc = "''http://foo.bar/baz''"
        and std = demo_std and r = ?r and rt = None]
      svc run demo_name_foo [of Map.empty Map.empty "[]"]
    by (simp add: demo_world_def)
qed

section \<open>Tap\<close>

text \<open>
  C7. \<open>TapService\<close> on the empty string returns the error "no url provided to tap" and
  leaves the state as it was: no Platform call is recorded and no goroutine is started.
\<close>

theorem TapService_empty_url:
  "TapService f std [] s = (Some (errors_New ''no url provided to tap''), s)"
  by (simp add: TapService_def)

section \<open>Invocation\<close>

text \<open>
  C3. What \<open>HandleFunctionRun\<close> passes to the Platform's run as the override. With the
  \<^verbatim>\<open>runtime\<close> parameter present and parsed to \<open>x\<close>, it is the duration of \<open>x\<close>
  seconds. With the parameter absent or empty it is not the nil override: it is a
  pointer to the duration converted from the zero float.
\<close>

theorem HandleFunctionRun_runtime_override:
  "(Values_Get (Query (URL r)) ''runtime'' = [] \<longrightarrow>
      snd (HandleFunctionRun f std w r s) = snd (Run f r (Some (Duration_of_seconds std 0)) s)
    \<and> last (calls (snd (HandleFunctionRun f std w r s))) =
        CRun (getFunctionNameFromUrl (URL r)) (Some (Duration_of_seconds std 0)))
   \<and> (Values_Get (Query (URL r)) ''runtime'' \<noteq> []
      \<and> strconv_ParseFloat std (Values_Get (Query (URL r)) ''runtime'') = Inr x \<longrightarrow>
      snd (HandleFunctionRun f std w r s) = snd (Run f r (Some (Duration_of_seconds std x)) s)
    \<and> last (calls (snd (HandleFunctionRun f std w r s))) =
        CRun (getFunctionNameFromUrl (URL r)) (Some (Duration_of_seconds std x)))"
proof (intro conjI impI)
  assume a: "Values_Get (Query (URL r)) ''runtime'' = []"
  then show st: "snd (HandleFunctionRun f std w r s) = snd (Run f r (Some (Duration_of_seconds std 0)) s)"
    by (simp add: HandleFunctionRun_state)
  show "last (calls (snd (HandleFunctionRun f std w r s))) =
        CRun (getFunctionNameFromUrl (URL r)) (Some (Duration_of_seconds std 0))"
    by (simp add: st Run_calls)
next
  assume a: "Values_Get (Query (URL r)) ''runtime'' \<noteq> []
      \<and> strconv_ParseFloat std (Values_Get (Query (URL r)) ''runtime'') = Inr x"
  then show st: "snd (HandleFunctionRun f std w r s) = snd (Run f r (Some (Duration_of_seconds std x)) s)"
    by (simp add: HandleFunctionRun_state)
  show "last (calls (snd (HandleFunctionRun f std w r s))) =
        CRun (getFunctionNameFromUrl (URL r)) (Some (Duration_of_seconds std x))"
    by (simp add: st Run_calls)
qed

theorem HandleFunctionRun_runtime_override_witness:
  "last (calls (snd (HandleFunctionRun (demo_Fission True) demo_std new_writer
       (demo_request ''/fission-function/myfn'' Map.empty Map.empty []) (demo_world []))))
     = CRun ''myfn'' (Some 0)
   \<and> last (calls (snd (HandleFunctionRun (demo_Fission True) demo_std new_writer
       (demo_request ''/fission-function/myfn'' [''runtime'' \<mapsto> [''2.5'']] Map.empty [])
       (demo_world []))))
     = CRun ''myfn'' (Some 2500000000)"
proof -
  let ?f = "demo_Fission True"
  let ?r0 = "demo_request ''/fission-function/myfn'' Map.empty Map.empty []"
  let ?r1 = "demo_request ''/fission-function/myfn'' [''runtime'' \<mapsto> [''2.5'']] Map.empty []"
  have q0: "Values_Get (Query (URL ?r0)) ''runtime'' = []"
    by (simp add: Values_Get_def demo_request_def)
  have q1: "Values_Get (Query (URL ?r1)) ''runtime'' = ''2.5''"
    by (simp add: Values_Get_def demo_request_def)
  have p1: "Values_Get (Query (URL ?r1)) ''runtime'' \<noteq> []
      \<and> strconv_ParseFloat demo_std (Values_Get (Query (URL ?r1)) ''runtime'') = Inr 0x4004000000000000"
    by (simp add: q1 demo_std_def)
  have d: "Duration_of_seconds demo_std 0 = 0"
    "Duration_of_seconds demo_std 0x4004000000000000 = 2500000000"
    by (simp_all add: demo_std_def)
  have "last (calls (snd (HandleFunctionRun ?f demo_std new_writer ?r0 (demo_world []))))
      = CRun (getFunctionNameFromUrl (URL ?r0)) (Some (Duration_of_seconds demo_std 0))"
    using HandleFunctionRun_runtime_override [where r = ?r0 and f = ?f and std = demo_std
        and w = new_writer and s = "demo_world []"] q0
    by blast
  then have a: "last (calls (snd (HandleFunctionRun ?f demo_std new_writer ?r0 (demo_world []))))
      = CRun ''myfn'' (Some 0)"
    by (simp add: d demo_name_myfn)
  have "last (calls (snd (HandleFunctionRun ?f demo_std new_writer ?r1 (demo_world []))))
      = CRun (getFunctionNameFromUrl (URL ?r1)) (Some (Duration_of_seconds demo_std 0x4004000000000000))"
    using HandleFunctionRun_runtime_override [where r = ?r1 and f = ?f and std = demo_std
        and w = new_writer and s = "demo_world []" and x = "0x4004000000000000"] p1
    by blast
  then have b: "last (calls (snd (HandleFunctionRun ?f demo_std new_writer ?r1 (demo_world []))))
      = CRun ''myfn'' (Some 2500000000)"
    by (simp add: d demo_name_myfn)
  show ?thesis using a b by simp
qed

text \<open>
  C4. Let the Platform's run succeed with a report. If the request carries a non-empty
  custom-function header and its body reads as \<open>b\<close>, the dispatcher is called on the
  function name and \<open>b\<close>: when it returns \<open>res\<close>, \<open>Run\<close> returns the report with
  its response field replaced by \<open>res\<close>; when it fails, \<open>Run\<close> returns that error and
  no report. Without the header \<open>Run\<close> returns the Platform's report as it is.
\<close>

theorem Run_custom_response:
  assumes "call_Run f (getFunctionNameFromUrl (URL r)) rt
             (createIfUndefined f (getFunctionNameFromUrl (URL r)) s) = (Inr report, s')"
  shows "(useCustomFn (Header r) \<and> Body r = Inr b \<longrightarrow>
            (\<forall>res. ExecFn (CustomFn f) (getFunctionNameFromUrl (URL r)) b = Inr res \<longrightarrow>
               Run f r rt s = (Inr (report\<lparr>Response := res\<rparr>), s'))
          \<and> (\<forall>e. ExecFn (CustomFn f) (getFunctionNameFromUrl (URL r)) b = Inl e \<longrightarrow>
               Run f r rt s = (Inl e, s')))
       \<and> (\<not> useCustomFn (Header r) \<longrightarrow> Run f r rt s = (Inr report, s'))"
  using assms by (simp add: Run_def Let_def)

theorem Run_custom_response_witness:
  "Run (demo_Fission False)
     (demo_request ''/fission-function/echo'' Map.empty [CUSTOM_FN_HEADER \<mapsto> [''1'']] ''hi'')
     None (demo_world [(''echo'', 4), (''fail'', 4)]) =
     (Inr \<lparr>Response = ''echo:hi''\<rparr>,
      \<lparr>platform = [(''echo'', 4), (''fail'', 4)], calls = [CRun ''echo'' None], goroutines = []\<rparr>)
   \<and> Run (demo_Fission False)
     (demo_request ''/fission-function/fail'' Map.empty [CUSTOM_FN_HEADER \<mapsto> [''1'']] ''hi'')
     None (demo_world [(''echo'', 4), (''fail'', 4)]) =
     (Inl (errors_New ''generator failed''),
      \<lparr>platform = [(''echo'', 4), (''fail'', 4)], calls = [CRun ''fail'' None], goroutines = []\<rparr>)
   \<and> Run (demo_Fission False)
     (demo_request ''/fission-function/echo'' Map.empty Map.empty ''hi'')
     None (demo_world [(''echo'', 4), (''fail'', 4)]) =
     (Inr \<lparr>Response = ''simulated''\<rparr>,
      \<lparr>platform = [(''echo'', 4), (''fail'', 4)], calls = [CRun ''echo'' None], goroutines = []\<rparr>)"
proof -
  let ?f = "demo_Fission False"
  let ?s = "demo_world [(''echo'', 4), (''fail'', 4)]"
  let ?h = "[CUSTOM_FN_HEADER \<mapsto> [''1'']]"
  let ?re = "demo_request ''/fission-function/echo'' Map.empty ?h ''hi''"
  let ?rf = "demo_request ''/fission-function/fail'' Map.empty ?h ''hi''"
  let ?rn = "demo_request ''/fission-function/echo'' Map.empty Map.empty ''hi''"
  let ?s' = "\<lambda>n. \<lparr>platform = [(''echo'', 4::nat), (''fail'', 4)], calls = [CRun n None] :: nat call list,
     goroutines = [] :: Function list\<rparr>"
  have run: "call_Run ?f n None (createIfUndefined ?f n ?s) =
      (if n = ''echo'' \<or> n = ''fail'' then Inr \<lparr>Response = ''simulated''\<rparr> else Inl ErrFunctionNotFound, ?s' n)" for n
    by (simp add: createIfUndefined_def call_Run_def demo_Fission_def demo_Platform_def demo_world_def)
  have hdr: "useCustomFn (Header ?re)" "useCustomFn (Header ?rf)" "\<not> useCustomFn (Header ?rn)"
    by (simp_all add: useCustomFn_def Values_Get_def demo_request_def)
  have bdy: "Body ?re = Inr ''hi''" "Body ?rf = Inr ''hi''"
    by (simp_all add: demo_request_def)
  have ex: "ExecFn (CustomFn ?f) ''echo'' ''hi'' = Inr ''echo:hi''"
    "ExecFn (CustomFn ?f) ''fail'' ''hi'' = Inl (errors_New ''generator failed'')"
    by (simp_all add: ExecFn_def demo_Fission_def demo_CustomFn_def)
  have a: "Run ?f ?re None ?s = (Inr (\<lparr>Response = ''simulated''\<rparr>\<lparr>Response := ''echo:hi''\<rparr>), ?s' ''echo'')"
    using Run_custom_response [where f = ?f and r = ?re and rt = None and s = ?s
        and report = "\<lparr>Response = ''simulated''\<rparr>" and s' = "?s' ''echo''" and b = "''hi''"]
      run [of "''echo''"] hdr bdy ex by (simp add: demo_name_echo)
  have b: "Run ?f ?rf None ?s = (Inl (errors_New ''generator failed''), ?s' ''fail'')"
    using Run_custom_response [where f = ?f and r = ?rf and rt = None and s = ?s
        and report = "\<lparr>Response = ''simulated''\<rparr>" and s' = "?s' ''fail''" and b = "''hi''"]
      run [of "''fail''"] hdr bdy ex by (simp add: demo_name_fail)
  have c: "Run ?f ?rn None ?s = (Inr \<lparr>Response = ''simulated''\<rparr>, ?s' ''echo'')"
    using Run_custom_response [where f = ?f and r = ?rn and rt = None and s = ?s
        and report = "\<lparr>Response = ''simulated''\<rparr>" and s' = "?s' ''echo''"]
      run [of "''echo''"] hdr by (simp add: demo_name_echo)
  show ?thesis using a b c by simp
qed

text \<open>
  C6. The identity of an invocation is the last \<^verbatim>\<open>/\<close>-delimited segment of the path:
  it contains no \<^verbatim>\<open>/\<close> and what precedes it in the path is empty or ends with
  \<^verbatim>\<open>/\<close>. The identity of a tapped service URL is the host of the parsed URL, and the
  string itself when it does not parse.
\<close>

theorem function_identity_derivation:
  "getFunctionNameFromUrl url = last_path_segment (Path url)
   \<and> CHR ''/'' \<notin> set (getFunctionNameFromUrl url)
   \<and> (\<exists>pre. Path url = pre @ getFunctionNameFromUrl url \<and> (pre = [] \<or> last pre = CHR ''/''))
   \<and> svc2fn std svc = (case url_Parse std svc of Inl err \<Rightarrow> svc | Inr u \<Rightarrow> Host u)"
proof (intro conjI)
  show "getFunctionNameFromUrl url = last_path_segment (Path url)"
    by (simp add: getFunctionNameFromUrl_def last_path_segment_def last_Split)
  show "CHR ''/'' \<notin> set (getFunctionNameFromUrl url)"
    unfolding getFunctionNameFromUrl_def by (rule sep_notin_drop_LastIndex)
  have "Path url = take (nat (LastIndex (Path url) CHR ''/'' + 1)) (Path url) @ getFunctionNameFromUrl url"
    by (simp add: getFunctionNameFromUrl_def)
  then show "\<exists>pre. Path url = pre @ getFunctionNameFromUrl url \<and> (pre = [] \<or> last pre = CHR ''/'')"
    using take_LastIndex_ends_with_sep [of "Path url" "CHR ''/''"] by blast
  show "svc2fn std svc = (case url_Parse std svc of Inl err \<Rightarrow> svc | Inr u \<Rightarrow> Host u)"
    by (simp add: svc2fn_def)
qed

text \<open>
  C10. A path that ends with \<^verbatim>\<open>/\<close> has the empty identity, and a path without
  \<^verbatim>\<open>/\<close> is its own identity. \<open>Run\<close> does not reject the empty identity: it applies
  \<open>createIfUndefined\<close> and the Platform's run to the empty name, and without the custom
  header it returns what the Platform's run returned.
\<close>

theorem empty_identity_is_run:
  "(Path url = pre @ ''/'' \<longrightarrow> getFunctionNameFromUrl url = [])
   \<and> (CHR ''/'' \<notin> set (Path url) \<longrightarrow> getFunctionNameFromUrl url = Path url)
   \<and> (getFunctionNameFromUrl (URL r) = [] \<longrightarrow>
        snd (Run f r rt s) = snd (call_Run f [] rt (createIfUndefined f [] s))
      \<and> calls (snd (Run f r rt s)) = calls (createIfUndefined f [] s) @ [CRun [] rt]
      \<and> (\<not> useCustomFn (Header r) \<longrightarrow>
           Run f r rt s = call_Run f [] rt (createIfUndefined f [] s)))"
proof (intro conjI impI)
  assume "Path url = pre @ ''/''"
  then show "getFunctionNameFromUrl url = []"
    by (simp add: getFunctionNameFromUrl_def LastIndex_append_sep)
next
  assume "CHR ''/'' \<notin> set (Path url)"
  then show "getFunctionNameFromUrl url = Path url"
    by (simp add: getFunctionNameFromUrl_def LastIndex_absent)
next
  assume e: "getFunctionNameFromUrl (URL r) = []"
  show "snd (Run f r rt s) = snd (call_Run f [] rt (createIfUndefined f [] s))"
    using Run_state [of f r rt s] e by simp
  show "calls (snd (Run f r rt s)) = calls (createIfUndefined f [] s) @ [CRun [] rt]"
    using Run_calls [of f r rt s] e by simp
  assume "\<not> useCustomFn (Header r)"
  then show "Run f r rt s = call_Run f [] rt (createIfUndefined f [] s)"
    using e by (simp add: Run_def split: prod.splits sum.splits)
qed

theorem empty_identity_is_run_witness:
  "getFunctionNameFromUrl \<lparr>Path = ''/fission-function/'', Host = [], Query = Map.empty\<rparr> = []
   \<and> getFunctionNameFromUrl \<lparr>Path = ''myfn'', Host = [], Query = Map.empty\<rparr> = ''myfn''
   \<and> Run (demo_Fission True) (demo_request ''/fission-function/'' Map.empty Map.empty [])
        None (demo_world []) =
      (Inr \<lparr>Response = ''simulated''\<rparr>,
       \<lparr>platform = [([], 0)], calls = [CGet [], CFactory [], CDefine [] 0, CRun [] None],
        goroutines = []\<rparr>)"
proof -
  let ?u1 = "\<lparr>Path = ''/fission-function/'', Host = [], Query = Map.empty\<rparr>"
  let ?u2 = "\<lparr>Path = ''myfn'', Host = [], Query = Map.empty\<rparr>"
  let ?r = "demo_request ''/fission-function/'' Map.empty Map.empty []"
  let ?f = "demo_Fission True"
  have h1: "Path ?u1 = ''/fission-function'' @ ''/''" by simp
  have h2: "CHR ''/'' \<notin> set (Path ?u2)" by simp
  have h3: "getFunctionNameFromUrl (URL ?r) = []" by (rule demo_name_empty)
  have h4: "\<not> useCustomFn (Header ?r)"
    by (simp add: useCustomFn_def Values_Get_def demo_request_def)
  have a: "getFunctionNameFromUrl ?u1 = []"
    using empty_identity_is_run [where url = ?u1 and pre = "''/fission-function''"] h1 by blast
  have "getFunctionNameFromUrl ?u2 = Path ?u2"
    using empty_identity_is_run [where url = ?u2] h2 by blast
  then have b: "getFunctionNameFromUrl ?u2 = ''myfn''"
    by simp
  have "Run ?f ?r None (demo_world []) = call_Run ?f [] None (createIfUndefined ?f [] (demo_world []))"
    using empty_identity_is_run [where r = ?r and f = ?f and rt = None and s = "demo_world []"] h3 h4
    by blast
  then have c: "Run ?f ?r None (demo_world []) =
      (Inr \<lparr>Response = ''simulated''\<rparr>,
       \<lparr>platform = [([], 0)], calls = [CGet [], CFactory [], CDefine [] 0, CRun [] None],
        goroutines = []\<rparr>)"
    by (simp add: createIfUndefined_def call_Get_def call_FnFactory_def call_Define_def call_Run_def
        demo_Fission_def demo_Platform_def demo_world_def)
  show ?thesis using a b c by simp
qed

section \<open>Input errors\<close>

text \<open>
  C8, as amended. A request whose \<^verbatim>\<open>runtime\<close> parameter does not parse is answered
  with status 400 and the parse error's message, followed by a newline, as the body. An
  empty tap URL is answered with status 400 and the fixed text
  "failed to parse service to tap"; a body that is not JSON is answered with status 400
  and the fixed text "failed to parse function metadata". The state is unchanged in all
  three cases.
\<close>

theorem input_errors_are_bad_requests:
  "(Values_Get (Query (URL r)) ''runtime'' \<noteq> []
      \<and> strconv_ParseFloat std (Values_Get (Query (URL r)) ''runtime'') = Inl e \<longrightarrow>
      HandleFunctionRun f std new_writer r s =
        (\<lparr>wstatus = Some 400, wbody = Error e @ [CHR 0x0A]\<rparr>, s))
   \<and> (Body r = Inr [] \<longrightarrow>
      HandleTapService f std new_writer r s =
        (\<lparr>wstatus = Some 400, wbody = ''failed to parse service to tap'' @ [CHR 0x0A]\<rparr>, s))
   \<and> (Body r = Inr bs \<and> json_Unmarshal std bs = Inl e' \<longrightarrow>
      HandleGetServiceForFunction f std new_writer r s =
        (\<lparr>wstatus = Some 400, wbody = ''failed to parse function metadata'' @ [CHR 0x0A]\<rparr>, s))"
  by (simp add: HandleFunctionRun_def HandleTapService_def HandleGetServiceForFunction_def
      TapService_def http_Error_def Write_def WriteHeader_def new_writer_def StatusBadRequest_def)

theorem input_errors_are_bad_requests_witness:
  "HandleFunctionRun (demo_Fission False) demo_std new_writer
     (demo_request ''/fission-function/myfn'' [''runtime'' \<mapsto> [''abc'']] Map.empty [])
     (demo_world []) =
     (\<lparr>wstatus = Some 400, wbody = ''invalid syntax'' @ [CHR 0x0A]\<rparr>, demo_world [])
   \<and> HandleTapService (demo_Fission False) demo_std new_writer
     (demo_request ''/v2/tapService'' Map.empty Map.empty []) (demo_world []) =
     (\<lparr>wstatus = Some 400, wbody = ''failed to parse service to tap'' @ [CHR 0x0A]\<rparr>, demo_world [])
   \<and> HandleGetServiceForFunction (demo_Fission False) demo_std new_writer
     (demo_request ''/v2/getServiceForFunction'' Map.empty Map.empty ''{'') (demo_world []) =
     (\<lparr>wstatus = Some 400, wbody = ''failed to parse function metadata'' @ [CHR 0x0A]\<rparr>, demo_world [])"
proof -
  let ?f = "demo_Fission False"
  let ?rr = "demo_request ''/fission-function/myfn'' [''runtime'' \<mapsto> [''abc'']] Map.empty []"
  let ?rt = "demo_request ''/v2/tapService'' Map.empty Map.empty []"
  let ?rj = "demo_request ''/v2/getServiceForFunction'' Map.empty Map.empty ''{''"
  have q: "Values_Get (Query (URL ?rr)) ''runtime'' = ''abc''"
    by (simp add: Values_Get_def demo_request_def)
  have h1: "Values_Get (Query (URL ?rr)) ''runtime'' \<noteq> []
      \<and> strconv_ParseFloat demo_std (Values_Get (Query (URL ?rr)) ''runtime'')
          = Inl (errors_New ''invalid syntax'')"
    by (simp add: q demo_std_def)
  have h2: "Body ?rt = Inr []"
    by (simp add: demo_request_def)
  have h3: "Body ?rj = Inr ''{'' \<and> json_Unmarshal demo_std ''{'' = Inl (errors_New ''unexpected end of JSON input'')"
    by (simp add: demo_request_def demo_std_def)
  have a: "HandleFunctionRun ?f demo_std new_writer ?rr (demo_world []) =
     (\<lparr>wstatus = Some 400, wbody = ''invalid syntax'' @ [CHR 0x0A]\<rparr>, demo_world [])"
    using input_errors_are_bad_requests [where r = ?rr and std = demo_std and f = ?f
        and s = "demo_world []" and e = "errors_New ''invalid syntax''"] h1 by simp
  have b: "HandleTapService ?f demo_std new_writer ?rt (demo_world []) =
     (\<lparr>wstatus = Some 400, wbody = ''failed to parse service to tap'' @ [CHR 0x0A]\<rparr>, demo_world [])"
    using input_errors_are_bad_requests [where r = ?rt and std = demo_std and f = ?f
        and s = "demo_world []"] h2 by simp
  have c: "HandleGetServiceForFunction ?f demo_std new_writer ?rj (demo_world []) =
     (\<lparr>wstatus = Some 400, wbody = ''failed to parse function metadata'' @ [CHR 0x0A]\<rparr>, demo_world [])"
    using input_errors_are_bad_requests [where r = ?rj and std = demo_std and f = ?f
        and s = "demo_world []" and bs = "''{''" and e' = "errors_New ''unexpected end of JSON input''"] h3
    by simp
  show ?thesis using a b c by simp
qed

text \<open>
  The empty tap URL, where the body is not the message of the error: \<open>TapService\<close>
  fails with "no url provided to tap" and the handler answers with its own fixed text.
\<close>

theorem empty_tap_body_is_not_the_error_message:
  "TapService (demo_Fission False) demo_std [] (demo_world []) =
     (Some (errors_New ''no url provided to tap''), demo_world [])
   \<and> wstatus (fst (HandleTapService (demo_Fission False) demo_std new_writer
        (demo_request ''/v2/tapService'' Map.empty Map.empty []) (demo_world []))) = Some 400
   \<and> wbody (fst (HandleTapService (demo_Fission False) demo_std new_writer
        (demo_request ''/v2/tapService'' Map.empty Map.empty []) (demo_world [])))
       \<noteq> Error (errors_New ''no url provided to tap'')
   \<and> wbody (fst (HandleTapService (demo_Fission False) demo_std new_writer
        (demo_request ''/v2/tapService'' Map.empty Map.empty []) (demo_world [])))
       \<noteq> Error (errors_New ''no url provided to tap'') @ [CHR 0x0A]"
  by (simp add: HandleTapService_def TapService_def demo_request_def http_Error_def Write_def
      WriteHeader_def new_writer_def)

end
